theory Spec2Isabelle
  imports Main
begin

section \<open>Values of the host language\<close>

text \<open>
  The client of \<^verbatim>\<open>src/index.ts\<close> moves three kinds of untyped data around: the
  variables of an operation, the \<^verbatim>\<open>data\<close> payload of a response and the
  \<^verbatim>\<open>extensions\<close> of an error. They are JavaScript values. Numbers are kept to the
  integers (the client never computes with them; it only tests a value for truthiness),
  an object is the list of its own properties in insertion order.
\<close>

datatype jsvalue =
    JUndefined
  | JNull
  | JBoolean bool
  | JNumber int
  | JString string
  | JArray "jsvalue list"
  | JObject "(string \<times> jsvalue) list"

text \<open>What \<^verbatim>\<open>v || w\<close> and \<^verbatim>\<open>if (v)\<close> test: every object and every array is truthy,
  the empty ones too.\<close>

fun truthy :: "jsvalue \<Rightarrow> bool" where
  "truthy JUndefined = False"
| "truthy JNull = False"
| "truthy (JBoolean b) = b"
| "truthy (JNumber n) = (n \<noteq> 0)"
| "truthy (JString s) = (s \<noteq> [])"
| "truthy (JArray xs) = True"
| "truthy (JObject kvs) = True"

text \<open>
  An optional property of an object literal that is spread into another one has three
  states: the object does not have the property, it has it with the value
  \<^verbatim>\<open>undefined\<close> (which \<^verbatim>\<open>Partial<...>\<close> admits), or it has it with a value.
  Reading the property gives \<^verbatim>\<open>undefined\<close> in the first two states; spreading
  copies the property in the last two.
\<close>

datatype 'a optional = Absent | Undefined | Value 'a

text \<open>\<^verbatim>\<open>{...a, ...b}.f\<close>, where reading \<^verbatim>\<open>a.f\<close> gives \<open>base\<close> and \<^verbatim>\<open>b\<close> holds
  \<^verbatim>\<open>f\<close> in the state \<open>over\<close>.\<close>

definition spread_optional :: "'a option \<Rightarrow> 'a optional \<Rightarrow> 'a option" where
  "spread_optional base over =
     (case over of Absent \<Rightarrow> base | Undefined \<Rightarrow> None | Value v \<Rightarrow> Some v)"

text \<open>A \<^verbatim>\<open>Record<string, string>\<close>. Spreading two of them into one literal is
  \<open>m ++ m'\<close>: the later one wins per key.\<close>

type_synonym record_string = "string \<rightharpoonup> string"

text \<open>\<^verbatim>\<open>...h\<close> inside an object literal, where \<^verbatim>\<open>h\<close> may be \<^verbatim>\<open>undefined\<close>:
  spreading \<^verbatim>\<open>undefined\<close> adds nothing.\<close>

definition spread :: "record_string option \<Rightarrow> record_string" where
  "spread h = (case h of None \<Rightarrow> Map.empty | Some m \<Rightarrow> m)"

text \<open>\<^verbatim>\<open>xs.join(sep)\<close> on an array of strings.\<close>

fun join :: "string \<Rightarrow> string list \<Rightarrow> string" where
  "join sep [] = []"
| "join sep [x] = x"
| "join sep (x # y # ys) = x @ sep @ join sep (y # ys)"

text \<open>The decimal digits of a non-negative integer, as a template literal renders it.\<close>

fun decimal :: "nat \<Rightarrow> string" where
  "decimal n =
     (if n < 10 then [''0123456789'' ! n]
      else decimal (n div 10) @ [''0123456789'' ! (n mod 10)])"

section \<open>The interfaces of \<^verbatim>\<open>src/index.ts\<close>\<close>

record GraphQLError =
  message :: string
  locations :: "(int \<times> int) list option"
  path :: "string list option"
  extensions :: "(string \<times> jsvalue) list option"

text \<open>\<^verbatim>\<open>data?: T\<close> is a value, \<open>JUndefined\<close> when the body has none;
  \<^verbatim>\<open>errors?: GraphQLError[]\<close> is \<open>None\<close> when the body has none, and a list,
  possibly empty, when it has one.\<close>

record GraphQLResponse =
  data :: jsvalue
  errors :: "GraphQLError list option"

text \<open>\<^verbatim>\<open>RequestCredentials\<close>, \<^verbatim>\<open>RequestMode\<close> and \<^verbatim>\<open>RequestCache\<close> are
  declared by the DOM library as unions of string literals; they are kept as the strings
  they are at run time.\<close>

type_synonym RequestCredentials = string
type_synonym RequestMode = string
type_synonym RequestCache = string

record GraphQLRequestConfig =
  url :: string
  headers :: "record_string option"
  credentials :: "RequestCredentials option"
  mode :: "RequestMode option"
  cache :: "RequestCache option"

record GraphQLClientOptions = GraphQLRequestConfig +
  defaultHeaders :: "record_string option"
  timeout :: "int option"

text \<open>
  The object passed as the per-call override. The parameter is declared as a
  \<^verbatim>\<open>Partial<GraphQLRequestConfig>\<close>: the five properties of
  \<^verbatim>\<open>GraphQLRequestConfig\<close>, each optional. A value of
  \<^verbatim>\<open>GraphQLClientOptions\<close>, which extends that interface, is assignable to the
  parameter, and the spread copies every own property of the object it is given; so the
  object may also carry the two other properties the method reads from the merged
  configuration, \<^verbatim>\<open>defaultHeaders\<close> and \<^verbatim>\<open>timeout\<close>.
\<close>

record PartialGraphQLRequestConfig =
  p_url :: "string optional"
  p_headers :: "record_string optional"
  p_credentials :: "RequestCredentials optional"
  p_mode :: "RequestMode optional"
  p_cache :: "RequestCache optional"
  p_defaultHeaders :: "record_string optional"
  p_timeout :: "int optional"

text \<open>The class: one private field.\<close>

record GraphQLLite =
  config :: GraphQLClientOptions

section \<open>The platform: promises, thrown values, fetch\<close>

text \<open>A thrown value is an instance of \<^verbatim>\<open>Error\<close> (with the name of its class and
  its message) or anything else.\<close>

datatype thrown =
    ErrorInstance (error_name: string) (error_message: string)
  | NonError jsvalue

text \<open>How an awaited promise ends; \<open>Pending\<close> is the promise that never settles, on
  which \<^verbatim>\<open>await\<close> never returns.\<close>

datatype 'a promise = Resolved 'a | Rejected thrown | Pending

text \<open>The \<^verbatim>\<open>Response\<close> that fetch resolves with, as far as the client reads it:
  \<^verbatim>\<open>ok\<close>, \<^verbatim>\<open>status\<close>, and the promise that \<^verbatim>\<open>json()\<close> returns, which
  the client casts to \<^verbatim>\<open>GraphQLResponse<T>\<close> unchecked.\<close>

record Response =
  ok :: bool
  status :: nat
  json :: "GraphQLResponse promise"

text \<open>The second argument of fetch. \<open>init_signal\<close> describes the
  \<^verbatim>\<open>AbortSignal\<close> handed over: \<open>Some t\<close> when a timer aborts its controller
  \<open>t\<close> time units after the call, \<open>None\<close> when no timer was set.\<close>

record RequestInit =
  init_method :: string
  init_headers :: record_string
  init_body :: string
  init_credentials :: "RequestCredentials option"
  init_mode :: "RequestMode option"
  init_cache :: "RequestCache option"
  init_signal :: "int option"

text \<open>The two platform functions the client calls. They are parameters of the model.
  \<^verbatim>\<open>JSON.stringify\<close> is total here: the values of \<open>jsvalue\<close> are the ones it
  serializes without throwing. \<open>fetch\<close> gives the way the promise of one call
  settles, as a function of the two arguments of the call.\<close>

record platform =
  JSON_stringify :: "jsvalue \<Rightarrow> string"
  fetch :: "string option \<Rightarrow> RequestInit \<Rightarrow> Response promise"

text \<open>What a call does to the outside, in order.\<close>

datatype event =
    SetTimeout int
  | Fetch "string option" RequestInit
  | ResponseJson
  | ClearTimeout

text \<open>An asynchronous method call: how its promise ends, what it did on the way, and
  the instance after the call.\<close>

record 'a call =
  result :: "'a promise"
  trace :: "event list"
  self :: GraphQLLite

fun fetch_calls :: "event list \<Rightarrow> (string option \<times> RequestInit) list" where
  "fetch_calls [] = []"
| "fetch_calls (Fetch u i # es) = (u, i) # fetch_calls es"
| "fetch_calls (e # es) = fetch_calls es"

section \<open>The class \<^verbatim>\<open>GraphQLLite\<close>\<close>

subsection \<open>constructor, createClient\<close>

definition constructor :: "GraphQLClientOptions \<Rightarrow> GraphQLLite" where
  "constructor options =
     \<lparr>config = options\<lparr>defaultHeaders :=
        Some ([''Content-Type'' \<mapsto> ''application/json''] ++ spread (defaultHeaders options))\<rparr>\<rparr>"

definition createClient :: "GraphQLClientOptions \<Rightarrow> GraphQLLite" where
  "createClient options = constructor options"

subsection \<open>request\<close>

text \<open>\<^verbatim>\<open>const config = { ...this.config, ...requestConfig }\<close>. Reading a property of
  the merged object gives \<^verbatim>\<open>undefined\<close> or a value. Every property the override
  has replaces the stored one as a whole, \<^verbatim>\<open>headers\<close>,
  \<^verbatim>\<open>defaultHeaders\<close> and \<^verbatim>\<open>timeout\<close> included.\<close>

record merged_config =
  m_url :: "string option"
  m_headers :: "record_string option"
  m_credentials :: "RequestCredentials option"
  m_mode :: "RequestMode option"
  m_cache :: "RequestCache option"
  m_defaultHeaders :: "record_string option"
  m_timeout :: "int option"

definition merge_config ::
  "GraphQLClientOptions \<Rightarrow> PartialGraphQLRequestConfig option \<Rightarrow> merged_config" where
  "merge_config base requestConfig =
     (case requestConfig of
        None \<Rightarrow>
          \<lparr>m_url = Some (url base), m_headers = headers base,
           m_credentials = credentials base, m_mode = mode base, m_cache = cache base,
           m_defaultHeaders = defaultHeaders base, m_timeout = timeout base\<rparr>
      | Some rc \<Rightarrow>
          \<lparr>m_url = spread_optional (Some (url base)) (p_url rc),
           m_headers = spread_optional (headers base) (p_headers rc),
           m_credentials = spread_optional (credentials base) (p_credentials rc),
           m_mode = spread_optional (mode base) (p_mode rc),
           m_cache = spread_optional (cache base) (p_cache rc),
           m_defaultHeaders = spread_optional (defaultHeaders base) (p_defaultHeaders rc),
           m_timeout = spread_optional (timeout base) (p_timeout rc)\<rparr>)"

text \<open>\<^verbatim>\<open>config.timeout ? setTimeout(() => controller.abort(), config.timeout) : null\<close>:
  a timer is set when the timeout is a truthy number.\<close>

definition timeoutId :: "merged_config \<Rightarrow> int option" where
  "timeoutId cfg =
     (case m_timeout cfg of None \<Rightarrow> None | Some t \<Rightarrow> if t \<noteq> 0 then Some t else None)"

text \<open>The object literal passed to fetch.\<close>

definition request_init ::
  "platform \<Rightarrow> merged_config \<Rightarrow> string \<Rightarrow> jsvalue \<Rightarrow> RequestInit" where
  "request_init P cfg query variables =
     \<lparr>init_method = ''POST'',
      init_headers = spread (m_defaultHeaders cfg) ++ spread (m_headers cfg),
      init_body = JSON_stringify P (JObject
        [(''query'', JString query),
         (''variables'', if truthy variables then variables else JObject [])]),
      init_credentials = m_credentials cfg,
      init_mode = m_mode cfg,
      init_cache = m_cache cfg,
      init_signal = timeoutId cfg\<rparr>"

text \<open>The catch block: an instance of \<^verbatim>\<open>Error\<close> is replaced by a new
  \<^verbatim>\<open>Error\<close> whose message is the prefix followed by the message caught; any other
  value is thrown again as it is.\<close>

definition catch_block :: "thrown \<Rightarrow> thrown" where
  "catch_block error =
     (case error of
        ErrorInstance n m \<Rightarrow> ErrorInstance ''Error'' (''GraphQL request failed: '' @ m)
      | NonError v \<Rightarrow> NonError v)"

text \<open>
  The method itself. The timer is set before fetch is called; the \<^verbatim>\<open>finally\<close>
  block clears it once the awaited promises have settled, and is never reached when one
  of them stays pending. A response that is not \<^verbatim>\<open>ok\<close> throws inside the
  \<^verbatim>\<open>try\<close> block, so the catch block wraps that error too, and
  \<^verbatim>\<open>response.json()\<close> is not called. The method assigns nothing to
  \<^verbatim>\<open>this.config\<close>.
\<close>

definition request ::
  "platform \<Rightarrow> GraphQLLite \<Rightarrow> string \<Rightarrow> jsvalue \<Rightarrow> PartialGraphQLRequestConfig option
     \<Rightarrow> GraphQLResponse call" where
  "request P this query variables requestConfig =
     (let cfg = merge_config (config this) requestConfig;
          init = request_init P cfg query variables;
          armed = (case timeoutId cfg of None \<Rightarrow> [] | Some t \<Rightarrow> [SetTimeout t]);
          cleared = (case timeoutId cfg of None \<Rightarrow> [] | Some t \<Rightarrow> [ClearTimeout]);
          called = armed @ [Fetch (m_url cfg) init]
      in case fetch P (m_url cfg) init of
           Pending \<Rightarrow> \<lparr>result = Pending, trace = called, self = this\<rparr>
         | Rejected error \<Rightarrow>
             \<lparr>result = Rejected (catch_block error), trace = called @ cleared, self = this\<rparr>
         | Resolved response \<Rightarrow>
             if \<not> ok response then
               \<lparr>result = Rejected (catch_block
                  (ErrorInstance ''Error''
                    (''HTTP error! status: '' @ decimal (status response)))),
                trace = called @ cleared, self = this\<rparr>
             else
               (case json response of
                  Pending \<Rightarrow>
                    \<lparr>result = Pending, trace = called @ [ResponseJson], self = this\<rparr>
                | Rejected error \<Rightarrow>
                    \<lparr>result = Rejected (catch_block error),
                     trace = called @ [ResponseJson] @ cleared, self = this\<rparr>
                | Resolved body \<Rightarrow>
                    \<lparr>result = Resolved body,
                     trace = called @ [ResponseJson] @ cleared, self = this\<rparr>))"

subsection \<open>query, mutation\<close>

text \<open>\<^verbatim>\<open>if (response.errors)\<close> tests an array for truthiness: it holds whenever the
  body has an \<^verbatim>\<open>errors\<close> list, whatever its length.\<close>

definition query ::
  "platform \<Rightarrow> GraphQLLite \<Rightarrow> string \<Rightarrow> jsvalue \<Rightarrow> PartialGraphQLRequestConfig option
     \<Rightarrow> jsvalue call" where
  "query P this q variables requestConfig =
     (let r = request P this q variables requestConfig
      in case result r of
           Pending \<Rightarrow> \<lparr>result = Pending, trace = trace r, self = self r\<rparr>
         | Rejected error \<Rightarrow> \<lparr>result = Rejected error, trace = trace r, self = self r\<rparr>
         | Resolved response \<Rightarrow>
             (case errors response of
                Some es \<Rightarrow>
                  \<lparr>result = Rejected (ErrorInstance ''Error'' (join '', '' (map message es))),
                   trace = trace r, self = self r\<rparr>
              | None \<Rightarrow>
                  \<lparr>result = Resolved (data response), trace = trace r, self = self r\<rparr>))"

definition mutation ::
  "platform \<Rightarrow> GraphQLLite \<Rightarrow> string \<Rightarrow> jsvalue \<Rightarrow> PartialGraphQLRequestConfig option
     \<Rightarrow> jsvalue call" where
  "mutation P this q variables requestConfig = query P this q variables requestConfig"

subsection \<open>setHeader, setHeaders\<close>

definition setHeader :: "GraphQLLite \<Rightarrow> string \<Rightarrow> string \<Rightarrow> GraphQLLite" where
  "setHeader this key v =
     this\<lparr>config := (config this)\<lparr>defaultHeaders :=
        Some ((spread (defaultHeaders (config this)))(key \<mapsto> v))\<rparr>\<rparr>"

definition setHeaders :: "GraphQLLite \<Rightarrow> record_string \<Rightarrow> GraphQLLite" where
  "setHeaders this hs =
     this\<lparr>config := (config this)\<lparr>defaultHeaders :=
        Some (spread (defaultHeaders (config this)) ++ hs)\<rparr>\<rparr>"

section \<open>Observing a call\<close>

text \<open>The header mapping of every fetch a call to \<open>request\<close> makes.\<close>

definition sent_headers ::
  "platform \<Rightarrow> GraphQLLite \<Rightarrow> string \<Rightarrow> jsvalue \<Rightarrow> PartialGraphQLRequestConfig option
     \<Rightarrow> record_string list" where
  "sent_headers P this q variables requestConfig =
     map (\<lambda>(u, i). init_headers i)
       (fetch_calls (trace (request P this q variables requestConfig)))"

section \<open>Inputs of the worked examples\<close>

text \<open>
  A serializer for the examples. It copies the characters of a string unescaped, so it
  agrees with \<^verbatim>\<open>JSON.stringify\<close> on strings that need no escaping; a property
  whose value is \<^verbatim>\<open>undefined\<close> is left out of an object and becomes
  \<^verbatim>\<open>null\<close> in an array.
\<close>

fun sample_stringify :: "jsvalue \<Rightarrow> string" where
  "sample_stringify JUndefined = ''null''"
| "sample_stringify JNull = ''null''"
| "sample_stringify (JBoolean b) = (if b then ''true'' else ''false'')"
| "sample_stringify (JNumber n) =
     (if n < 0 then ''-'' @ decimal (nat (- n)) else decimal (nat n))"
| "sample_stringify (JString s) = CHR 0x22 # s @ [CHR 0x22]"
| "sample_stringify (JArray xs) = ''['' @ join '','' (map sample_stringify xs) @ '']''"
| "sample_stringify (JObject kvs) =
     ''{'' @ join '',''
        (map (\<lambda>(k, v). CHR 0x22 # k @ [CHR 0x22] @ '':'' @ sample_stringify v)
          (filter (\<lambda>(k, v). v \<noteq> JUndefined) kvs)) @ ''}''"

text \<open>A platform whose fetch settles every call in the way given, as the mocked fetch
  of the test suite does.\<close>

definition sample_platform :: "Response promise \<Rightarrow> platform" where
  "sample_platform r = \<lparr>JSON_stringify = sample_stringify, fetch = (\<lambda>u i. r)\<rparr>"

text \<open>The options of the README: an endpoint, an \<^verbatim>\<open>Authorization\<close> header given
  as \<^verbatim>\<open>headers\<close>, and a timeout.\<close>

definition sample_options :: GraphQLClientOptions where
  "sample_options =
     \<lparr>url = ''https://api.example.com/graphql'',
      headers = Some [''Authorization'' \<mapsto> ''Bearer your-token''],
      credentials = None, mode = None, cache = None,
      defaultHeaders = None, timeout = Some 100\<rparr>"

text \<open>The per-call configuration of the README.\<close>

definition sample_override :: PartialGraphQLRequestConfig where
  "sample_override =
     \<lparr>p_url = Absent,
      p_headers = Value [''Custom-Header'' \<mapsto> ''value''],
      p_credentials = Value ''include'',
      p_mode = Value ''cors'',
      p_cache = Value ''no-cache'',
      p_defaultHeaders = Absent,
      p_timeout = Absent\<rparr>"

text \<open>The options of a second endpoint, a \<^verbatim>\<open>GraphQLClientOptions\<close> value, passed as
  the override of one call.\<close>

definition staging_override :: PartialGraphQLRequestConfig where
  "staging_override =
     \<lparr>p_url = Value ''https://staging.example.com/graphql'',
      p_headers = Absent,
      p_credentials = Absent,
      p_mode = Absent,
      p_cache = Absent,
      p_defaultHeaders = Value [''X-Environment'' \<mapsto> ''staging''],
      p_timeout = Value 50\<rparr>"

text \<open>The response body of the test suite.\<close>

definition sample_body :: GraphQLResponse where
  "sample_body =
     \<lparr>data = JObject
        [(''user'', JObject [(''id'', JString ''123''), (''name'', JString ''John Doe'')])],
      errors = None\<rparr>"





section \<open>Properties\<close>

subsection \<open>What a call does, in closed form\<close>

lemma spread_Some [simp]: "spread (Some m) = m"
  by (simp add: spread_def)

lemma spread_None [simp]: "spread None = Map.empty"
  by (simp add: spread_def)

lemma fetch_calls_append: "fetch_calls (xs @ ys) = fetch_calls xs @ fetch_calls ys"
  by (induction xs rule: fetch_calls.induct) simp_all

lemma fetch_calls_request:
  "fetch_calls (trace (request P this q variables rc)) =
     [(m_url (merge_config (config this) rc),
       request_init P (merge_config (config this) rc) q variables)]"
  by (simp add: request_def Let_def fetch_calls_append split: promise.splits option.splits)

lemma fetch_calls_request_None:
  "fetch_calls (trace (request P this q variables None)) =
     [(Some (url (config this)),
       \<lparr>init_method = ''POST'',
        init_headers = spread (defaultHeaders (config this)) ++ spread (headers (config this)),
        init_body = JSON_stringify P (JObject
          [(''query'', JString q),
           (''variables'', if truthy variables then variables else JObject [])]),
        init_credentials = credentials (config this),
        init_mode = mode (config this),
        init_cache = cache (config this),
        init_signal = (case timeout (config this) of None \<Rightarrow> None
                       | Some t \<Rightarrow> if t \<noteq> 0 then Some t else None)\<rparr>)]"
  by (simp add: fetch_calls_request request_init_def merge_config_def timeoutId_def)

lemma fetch_calls_request_Some:
  "fetch_calls (trace (request P this q variables (Some ov))) =
     [(spread_optional (Some (url (config this))) (p_url ov),
       \<lparr>init_method = ''POST'',
        init_headers =
           spread (spread_optional (defaultHeaders (config this)) (p_defaultHeaders ov)) ++
           spread (spread_optional (headers (config this)) (p_headers ov)),
        init_body = JSON_stringify P (JObject
          [(''query'', JString q),
           (''variables'', if truthy variables then variables else JObject [])]),
        init_credentials = spread_optional (credentials (config this)) (p_credentials ov),
        init_mode = spread_optional (mode (config this)) (p_mode ov),
        init_cache = spread_optional (cache (config this)) (p_cache ov),
        init_signal =
          (case spread_optional (timeout (config this)) (p_timeout ov) of
             None \<Rightarrow> None
           | Some t \<Rightarrow> if t \<noteq> 0 then Some t else None)\<rparr>)]"
  by (simp add: fetch_calls_request request_init_def merge_config_def timeoutId_def)

lemma result_request:
  "result (request P this q variables rc) =
     (case fetch P (m_url (merge_config (config this) rc))
             (request_init P (merge_config (config this) rc) q variables) of
        Pending \<Rightarrow> Pending
      | Rejected error \<Rightarrow> Rejected (catch_block error)
      | Resolved response \<Rightarrow>
          if \<not> ok response then
            Rejected (ErrorInstance ''Error''
              (''GraphQL request failed: HTTP error! status: '' @ decimal (status response)))
          else (case json response of
                  Pending \<Rightarrow> Pending
                | Rejected error \<Rightarrow> Rejected (catch_block error)
                | Resolved body \<Rightarrow> Resolved body))"
  by (simp add: request_def Let_def catch_block_def split: promise.splits)

lemma self_request: "self (request P this q variables rc) = this"
  by (simp add: request_def Let_def split: promise.splits option.splits)

lemma result_query:
  "result (query P this q variables rc) =
     (case result (request P this q variables rc) of
        Pending \<Rightarrow> Pending
      | Rejected error \<Rightarrow> Rejected error
      | Resolved response \<Rightarrow>
          (case errors response of
             Some es \<Rightarrow> Rejected (ErrorInstance ''Error'' (join '', '' (map message es)))
           | None \<Rightarrow> Resolved (data response)))"
  by (simp add: query_def Let_def split: promise.splits option.splits)

lemma trace_query:
  "trace (query P this q variables rc) = trace (request P this q variables rc)"
  by (simp add: query_def Let_def split: promise.splits option.splits)

lemma self_query: "self (query P this q variables rc) = this"
  by (simp add: query_def Let_def self_request split: promise.splits option.splits)

lemma json_not_called:
  "fetch P (m_url (merge_config (config this) rc))
      (request_init P (merge_config (config this) rc) q variables) = Resolved response
   \<Longrightarrow> \<not> ok response
   \<Longrightarrow> ResponseJson \<notin> set (trace (request P this q variables rc))"
  by (simp add: request_def Let_def split: option.splits)

lemma defaultHeaders_setHeader:
  "defaultHeaders (config (setHeader this key v)) =
     Some ((spread (defaultHeaders (config this)))(key \<mapsto> v))"
  by (simp add: setHeader_def)

lemma defaultHeaders_setHeaders:
  "defaultHeaders (config (setHeaders this hs)) =
     Some (spread (defaultHeaders (config this)) ++ hs)"
  by (simp add: setHeaders_def)

lemma headers_setHeader: "headers (config (setHeader this key v)) = headers (config this)"
  by (simp add: setHeader_def)

lemma headers_setHeaders: "headers (config (setHeaders this hs)) = headers (config this)"
  by (simp add: setHeaders_def)

lemma sent_headers_None:
  "sent_headers P this q variables None =
     [spread (defaultHeaders (config this)) ++ spread (headers (config this))]"
  by (simp add: sent_headers_def fetch_calls_request_None)

lemma sent_headers_Some:
  "sent_headers P this q variables (Some ov) =
     [(case p_defaultHeaders ov of
         Absent \<Rightarrow> spread (defaultHeaders (config this))
       | Undefined \<Rightarrow> Map.empty
       | Value d \<Rightarrow> d) ++
      (case p_headers ov of
         Absent \<Rightarrow> spread (headers (config this))
       | Undefined \<Rightarrow> Map.empty
       | Value h \<Rightarrow> h)]"
  by (simp add: sent_headers_def fetch_calls_request_Some spread_optional_def
      split: optional.splits)

subsection \<open>The timer\<close>

text \<open>
  A timer is set exactly when the timeout of the merged configuration is a number other
  than zero; its delay is that timeout, the signal handed to fetch is the one it aborts,
  and it is cleared once the call has settled.
\<close>

lemma trace_request:
  "trace (request P this q variables rc) =
     (case timeoutId (merge_config (config this) rc) of
        None \<Rightarrow> [] | Some t \<Rightarrow> [SetTimeout t]) @
     Fetch (m_url (merge_config (config this) rc))
       (request_init P (merge_config (config this) rc) q variables) #
     (case fetch P (m_url (merge_config (config this) rc))
             (request_init P (merge_config (config this) rc) q variables) of
        Pending \<Rightarrow> []
      | Rejected error \<Rightarrow>
          (case timeoutId (merge_config (config this) rc) of
             None \<Rightarrow> [] | Some t \<Rightarrow> [ClearTimeout])
      | Resolved response \<Rightarrow>
          if \<not> ok response then
            (case timeoutId (merge_config (config this) rc) of
               None \<Rightarrow> [] | Some t \<Rightarrow> [ClearTimeout])
          else ResponseJson #
            (case json response of
               Pending \<Rightarrow> []
             | Rejected error \<Rightarrow>
                 (case timeoutId (merge_config (config this) rc) of
                    None \<Rightarrow> [] | Some t \<Rightarrow> [ClearTimeout])
             | Resolved body \<Rightarrow>
                 (case timeoutId (merge_config (config this) rc) of
                    None \<Rightarrow> [] | Some t \<Rightarrow> [ClearTimeout])))"
  by (simp add: request_def Let_def split: promise.splits)

lemma request_sets_timer:
  assumes "m_timeout (merge_config (config this) rc) = Some t" and "t \<noteq> 0"
  shows "map (\<lambda>(u, i). init_signal i)
           (fetch_calls (trace (request P this q variables rc))) = [Some t]
     \<and> hd (trace (request P this q variables rc)) = SetTimeout t
     \<and> (result (request P this q variables rc) \<noteq> Pending \<longrightarrow>
          last (trace (request P this q variables rc)) = ClearTimeout)"
proof -
  have tid: "timeoutId (merge_config (config this) rc) = Some t"
    using assms by (simp add: timeoutId_def)
  have a: "map (\<lambda>(u, i). init_signal i)
             (fetch_calls (trace (request P this q variables rc))) = [Some t]"
    by (simp add: fetch_calls_request request_init_def tid)
  have b: "hd (trace (request P this q variables rc)) = SetTimeout t"
    by (simp add: trace_request tid)
  have c: "result (request P this q variables rc) \<noteq> Pending \<longrightarrow>
          last (trace (request P this q variables rc)) = ClearTimeout"
    by (simp add: trace_request result_request tid split: promise.splits)
  from a b c show ?thesis by blast
qed

lemma request_without_timer:
  assumes "m_timeout (merge_config (config this) rc) = None
           \<or> m_timeout (merge_config (config this) rc) = Some 0"
  shows "map (\<lambda>(u, i). init_signal i)
           (fetch_calls (trace (request P this q variables rc))) = [None]
     \<and> (\<forall>t. SetTimeout t \<notin> set (trace (request P this q variables rc)))
     \<and> ClearTimeout \<notin> set (trace (request P this q variables rc))"
proof -
  have tid: "timeoutId (merge_config (config this) rc) = None"
    using assms by (auto simp add: timeoutId_def)
  have a: "map (\<lambda>(u, i). init_signal i)
             (fetch_calls (trace (request P this q variables rc))) = [None]"
    by (simp add: fetch_calls_request request_init_def tid)
  have b: "\<forall>t. SetTimeout t \<notin> set (trace (request P this q variables rc))"
    by (simp add: trace_request tid split: promise.splits)
  have c: "ClearTimeout \<notin> set (trace (request P this q variables rc))"
    by (simp add: trace_request tid split: promise.splits)
  from a b c show ?thesis by blast
qed

subsection \<open>The request body\<close>

text \<open>
  Claim C1. For every operation text \<open>q\<close> and every variables mapping, given or
  omitted, a call to \<open>request\<close> calls fetch exactly once, with the method POST and a
  body that is the serialization of the object with the two properties
  \<^verbatim>\<open>query\<close>, bound to \<open>q\<close>, and \<^verbatim>\<open>variables\<close>, bound to the mapping given
  or to the empty object when it is omitted. \<open>query\<close> and \<open>mutation\<close> do to the outside
  what \<open>request\<close> does, so the property is named \<^verbatim>\<open>query\<close> for a mutation too.
\<close>

theorem request_posts_query_and_variables:
  "map (\<lambda>(u, i). (init_method i, init_body i))
       (fetch_calls (trace (request P this q (JObject kvs) rc))) =
     [(''POST'', JSON_stringify P
        (JObject [(''query'', JString q), (''variables'', JObject kvs)]))]
   \<and> map (\<lambda>(u, i). (init_method i, init_body i))
       (fetch_calls (trace (request P this q JUndefined rc))) =
     [(''POST'', JSON_stringify P
        (JObject [(''query'', JString q), (''variables'', JObject [])]))]
   \<and> trace (query P this q variables rc) = trace (request P this q variables rc)
   \<and> trace (mutation P this q variables rc) = trace (request P this q variables rc)"
  by (simp add: fetch_calls_request request_init_def trace_query mutation_def)

theorem request_posts_query_and_variables_witness:
  "map (\<lambda>(u, i). (init_method i, init_body i))
     (fetch_calls (trace (mutation (sample_platform Pending) (createClient sample_options)
        ''query { hello }'' JUndefined None))) =
   [(''POST'',
     ''{'' @ CHR 0x22 # ''query'' @ CHR 0x22 # '':'' @ CHR 0x22 # ''query { hello }'' @
     CHR 0x22 # '','' @ CHR 0x22 # ''variables'' @ CHR 0x22 # '':{}}'')]"
  using request_posts_query_and_variables [of "sample_platform Pending"
      "createClient sample_options" "''query { hello }''" "[]" None JUndefined]
  by (simp add: sample_platform_def)

subsection \<open>The headers sent\<close>

text \<open>
  Claim C2 says that the headers sent are the client's headers overridden key by key by
  the per-call headers, and that per-call headers never replace the client's header
  mapping as a whole. The client holds two header mappings: \<^verbatim>\<open>defaultHeaders\<close>,
  which is merged by key, and \<^verbatim>\<open>headers\<close>, which it inherits from
  \<^verbatim>\<open>GraphQLRequestConfig\<close> and which the spread
  \<^verbatim>\<open>{ ...this.config, ...requestConfig }\<close> replaces as a whole, like every other
  property of the override. A client built as in the README, with an
  \<^verbatim>\<open>Authorization\<close> header given as \<^verbatim>\<open>headers\<close>, sends that header on a call
  without override and drops it on a call whose override has \<^verbatim>\<open>headers\<close> that do
  not mention it.
\<close>

theorem per_call_headers_replace_client_headers:
  "map (\<lambda>hs. hs ''Authorization'')
     (sent_headers (sample_platform Pending) (createClient sample_options)
        ''query { hello }'' JUndefined None) = [Some ''Bearer your-token'']
   \<and> map (\<lambda>hs. hs ''Authorization'')
     (sent_headers (sample_platform Pending) (createClient sample_options)
        ''query { hello }'' JUndefined (Some sample_override)) = [None]"
  by (simp add: sent_headers_def fetch_calls_request_Some fetch_calls_request_None
      createClient_def constructor_def sample_options_def sample_override_def
      spread_optional_def map_add_def)

text \<open>
  Claim C2, amended. The headers sent are a base mapping overlaid key by key with one
  more mapping. The base is the stored \<^verbatim>\<open>defaultHeaders\<close>, unless the object passed
  as the override carries a \<^verbatim>\<open>defaultHeaders\<close> property of its own, which then
  replaces the stored one as a whole for that call. The overlay is the
  \<^verbatim>\<open>headers\<close> of the override when it has that property, and the client's own
  \<^verbatim>\<open>headers\<close> otherwise (no override, or an override without
  \<^verbatim>\<open>headers\<close>). So a key of the per-call headers resolves to the per-call value
  and a key they do not mention keeps the value the base gives it, while the client's
  \<^verbatim>\<open>headers\<close> are replaced as a whole. The credentials, the mode and the cache
  mode are replaced as a whole when the override has them.
\<close>

theorem sent_headers_merge:
  "sent_headers P this q variables None =
     [spread (defaultHeaders (config this)) ++ spread (headers (config this))]
   \<and> sent_headers P this q variables (Some ov) =
     [(case p_defaultHeaders ov of
         Absent \<Rightarrow> spread (defaultHeaders (config this))
       | Undefined \<Rightarrow> Map.empty
       | Value d \<Rightarrow> d) ++
      (case p_headers ov of
         Absent \<Rightarrow> spread (headers (config this))
       | Undefined \<Rightarrow> Map.empty
       | Value h \<Rightarrow> h)]
   \<and> (p_defaultHeaders ov = Absent \<and> p_headers ov = Absent \<longrightarrow>
        sent_headers P this q variables (Some ov) =
          [spread (defaultHeaders (config this)) ++ spread (headers (config this))])
   \<and> (p_defaultHeaders ov = Absent \<and> p_headers ov = Undefined \<longrightarrow>
        sent_headers P this q variables (Some ov) = [spread (defaultHeaders (config this))])
   \<and> (p_defaultHeaders ov = Absent \<and> p_headers ov = Value h \<longrightarrow>
        sent_headers P this q variables (Some ov) =
          [spread (defaultHeaders (config this)) ++ h]
        \<and> (k \<in> dom h \<longrightarrow>
             map (\<lambda>hs. hs k) (sent_headers P this q variables (Some ov)) = [h k])
        \<and> (k \<notin> dom h \<longrightarrow>
             map (\<lambda>hs. hs k) (sent_headers P this q variables (Some ov)) =
               [spread (defaultHeaders (config this)) k]))
   \<and> (p_defaultHeaders ov = Value d \<and> p_headers ov = Value h \<longrightarrow>
        sent_headers P this q variables (Some ov) = [d ++ h])
   \<and> (p_credentials ov = Value c \<longrightarrow>
        map (\<lambda>(u, i). init_credentials i)
          (fetch_calls (trace (request P this q variables (Some ov)))) = [Some c])
   \<and> (p_mode ov = Value md \<longrightarrow>
        map (\<lambda>(u, i). init_mode i)
          (fetch_calls (trace (request P this q variables (Some ov)))) = [Some md])
   \<and> (p_cache ov = Value ca \<longrightarrow>
        map (\<lambda>(u, i). init_cache i)
          (fetch_calls (trace (request P this q variables (Some ov)))) = [Some ca])"
proof -
  have none: "sent_headers P this q variables None =
     [spread (defaultHeaders (config this)) ++ spread (headers (config this))]"
    by (rule sent_headers_None)
  note some = sent_headers_Some [of P this q variables ov]
  have aa: "p_defaultHeaders ov = Absent \<and> p_headers ov = Absent \<longrightarrow>
        sent_headers P this q variables (Some ov) =
          [spread (defaultHeaders (config this)) ++ spread (headers (config this))]"
    by (simp add: some)
  have au: "p_defaultHeaders ov = Absent \<and> p_headers ov = Undefined \<longrightarrow>
        sent_headers P this q variables (Some ov) = [spread (defaultHeaders (config this))]"
    by (simp add: some)
  have av: "p_defaultHeaders ov = Absent \<and> p_headers ov = Value h \<longrightarrow>
        sent_headers P this q variables (Some ov) =
          [spread (defaultHeaders (config this)) ++ h]
        \<and> (k \<in> dom h \<longrightarrow>
             map (\<lambda>hs. hs k) (sent_headers P this q variables (Some ov)) = [h k])
        \<and> (k \<notin> dom h \<longrightarrow>
             map (\<lambda>hs. hs k) (sent_headers P this q variables (Some ov)) =
               [spread (defaultHeaders (config this)) k])"
    by (simp add: some map_add_dom_app_simps)
  have vv: "p_defaultHeaders ov = Value d \<and> p_headers ov = Value h \<longrightarrow>
        sent_headers P this q variables (Some ov) = [d ++ h]"
    by (simp add: some)
  have rest: "(p_credentials ov = Value c \<longrightarrow>
        map (\<lambda>(u, i). init_credentials i)
          (fetch_calls (trace (request P this q variables (Some ov)))) = [Some c])
   \<and> (p_mode ov = Value md \<longrightarrow>
        map (\<lambda>(u, i). init_mode i)
          (fetch_calls (trace (request P this q variables (Some ov)))) = [Some md])
   \<and> (p_cache ov = Value ca \<longrightarrow>
        map (\<lambda>(u, i). init_cache i)
          (fetch_calls (trace (request P this q variables (Some ov)))) = [Some ca])"
    by (simp add: fetch_calls_request_Some spread_optional_def)
  from none some aa au av vv rest show ?thesis by blast
qed

theorem sent_headers_merge_witness:
  "map (\<lambda>hs. (hs ''Content-Type'', hs ''Custom-Header''))
     (sent_headers (sample_platform Pending)
        (setHeader (createClient sample_options) ''Custom-Header'' ''default'')
        ''query { hello }'' JUndefined (Some sample_override)) =
     [(Some ''application/json'', Some ''value'')]
   \<and> map (\<lambda>(u, i). (init_credentials i, init_mode i, init_cache i))
     (fetch_calls (trace (request (sample_platform Pending)
        (setHeader (createClient sample_options) ''Custom-Header'' ''default'')
        ''query { hello }'' JUndefined (Some sample_override)))) =
     [(Some ''include'', Some ''cors'', Some ''no-cache'')]
   \<and> map (\<lambda>hs. (hs ''Authorization'', hs ''Custom-Header''))
     (sent_headers (sample_platform Pending)
        (setHeader (createClient sample_options) ''Custom-Header'' ''default'')
        ''query { hello }'' JUndefined (Some (sample_override\<lparr>p_headers := Absent\<rparr>))) =
     [(Some ''Bearer your-token'', Some ''default'')]
   \<and> map (\<lambda>hs. (hs ''Authorization'', hs ''Custom-Header''))
     (sent_headers (sample_platform Pending)
        (setHeader (createClient sample_options) ''Custom-Header'' ''default'')
        ''query { hello }'' JUndefined (Some (sample_override\<lparr>p_headers := Undefined\<rparr>))) =
     [(None, Some ''default'')]
   \<and> map (\<lambda>hs. (hs ''Content-Type'', hs ''X-Environment'', hs ''Custom-Header''))
     (sent_headers (sample_platform Pending)
        (setHeader (createClient sample_options) ''Custom-Header'' ''default'')
        ''query { hello }'' JUndefined
        (Some (sample_override\<lparr>p_defaultHeaders :=
           Value [''X-Environment'' \<mapsto> ''staging'']\<rparr>))) =
     [(None, Some ''staging'', Some ''value'')]"
proof -
  let ?P = "sample_platform Pending"
  let ?c = "setHeader (createClient sample_options) ''Custom-Header'' ''default''"
  let ?h = "[''Custom-Header'' \<mapsto> ''value'']"
  let ?d = "[''X-Environment'' \<mapsto> ''staging'']"
  let ?ova = "sample_override\<lparr>p_headers := Absent\<rparr>"
  let ?ovu = "sample_override\<lparr>p_headers := Undefined\<rparr>"
  let ?ovd = "sample_override\<lparr>p_defaultHeaders := Value ?d\<rparr>"
  have ov: "p_defaultHeaders sample_override = Absent \<and> p_headers sample_override = Value ?h"
    "p_credentials sample_override = Value ''include''"
    "p_mode sample_override = Value ''cors''"
    "p_cache sample_override = Value ''no-cache''"
    "p_defaultHeaders ?ova = Absent \<and> p_headers ?ova = Absent"
    "p_defaultHeaders ?ovu = Absent \<and> p_headers ?ovu = Undefined"
    "p_defaultHeaders ?ovd = Value ?d \<and> p_headers ?ovd = Value ?h"
    by (simp_all add: sample_override_def)
  have dh: "spread (defaultHeaders (config ?c)) =
      [''Content-Type'' \<mapsto> ''application/json'', ''Custom-Header'' \<mapsto> ''default'']"
    "spread (headers (config ?c)) = [''Authorization'' \<mapsto> ''Bearer your-token'']"
    by (simp_all add: setHeader_def createClient_def constructor_def sample_options_def)
  have mem: "''Custom-Header'' \<in> dom ?h" "''Content-Type'' \<notin> dom ?h"
    by simp_all
  note a = sent_headers_merge [of ?P ?c "''query { hello }''" JUndefined sample_override
      ?h "''Custom-Header''" _ "''include''" "''cors''" "''no-cache''"]
  note b = sent_headers_merge [of ?P ?c "''query { hello }''" JUndefined sample_override
      ?h "''Content-Type''"]
  note c = sent_headers_merge [of ?P ?c "''query { hello }''" JUndefined ?ova]
  note d = sent_headers_merge [of ?P ?c "''query { hello }''" JUndefined ?ovu]
  note e = sent_headers_merge [of ?P ?c "''query { hello }''" JUndefined ?ovd ?h _ ?d]
  from a ov(1) mem have 1: "map (\<lambda>hs. hs ''Custom-Header'')
      (sent_headers ?P ?c ''query { hello }'' JUndefined (Some sample_override)) =
        [Some ''value'']"
    by simp
  from b ov(1) mem dh have 2: "map (\<lambda>hs. hs ''Content-Type'')
      (sent_headers ?P ?c ''query { hello }'' JUndefined (Some sample_override)) =
        [Some ''application/json'']"
    by simp
  from a ov(2,3,4) have 3:
    "map (\<lambda>(u, i). init_credentials i)
       (fetch_calls (trace (request ?P ?c ''query { hello }'' JUndefined
          (Some sample_override)))) = [Some ''include'']"
    "map (\<lambda>(u, i). init_mode i)
       (fetch_calls (trace (request ?P ?c ''query { hello }'' JUndefined
          (Some sample_override)))) = [Some ''cors'']"
    "map (\<lambda>(u, i). init_cache i)
       (fetch_calls (trace (request ?P ?c ''query { hello }'' JUndefined
          (Some sample_override)))) = [Some ''no-cache'']"
    by simp_all
  from c ov(5) have "sent_headers ?P ?c ''query { hello }'' JUndefined (Some ?ova) =
      [spread (defaultHeaders (config ?c)) ++ spread (headers (config ?c))]"
    by blast
  then have 4: "map (\<lambda>hs. (hs ''Authorization'', hs ''Custom-Header''))
     (sent_headers ?P ?c ''query { hello }'' JUndefined (Some ?ova)) =
     [(Some ''Bearer your-token'', Some ''default'')]"
    by (simp add: dh map_add_def)
  from d ov(6) have "sent_headers ?P ?c ''query { hello }'' JUndefined (Some ?ovu) =
      [spread (defaultHeaders (config ?c))]"
    by blast
  then have 5: "map (\<lambda>hs. (hs ''Authorization'', hs ''Custom-Header''))
     (sent_headers ?P ?c ''query { hello }'' JUndefined (Some ?ovu)) =
     [(None, Some ''default'')]"
    by (simp add: dh)
  from e ov(7) have "sent_headers ?P ?c ''query { hello }'' JUndefined (Some ?ovd) =
      [?d ++ ?h]"
    by blast
  then have 7: "map (\<lambda>hs. (hs ''Content-Type'', hs ''X-Environment'', hs ''Custom-Header''))
     (sent_headers ?P ?c ''query { hello }'' JUndefined (Some ?ovd)) =
     [(None, Some ''staging'', Some ''value'')]"
    by (simp add: map_add_def)
  from 1 2 3 have 6: "map (\<lambda>hs. (hs ''Content-Type'', hs ''Custom-Header''))
     (sent_headers ?P ?c ''query { hello }'' JUndefined (Some sample_override)) =
     [(Some ''application/json'', Some ''value'')]
   \<and> map (\<lambda>(u, i). (init_credentials i, init_mode i, init_cache i))
     (fetch_calls (trace (request ?P ?c ''query { hello }'' JUndefined
        (Some sample_override)))) =
     [(Some ''include'', Some ''cors'', Some ''no-cache'')]"
    by (auto simp add: sent_headers_def fetch_calls_request)
  from 4 5 6 7 show ?thesis by blast
qed

subsection \<open>Errors reported inside a response\<close>

text \<open>What \<open>request\<close> and \<open>query\<close> do with a body that fetch delivered with a success
  status: \<open>request\<close> returns it whatever it holds; \<open>query\<close> rejects when the body has
  an \<^verbatim>\<open>errors\<close> list, with the messages joined, and returns the data otherwise,
  also when the body has none.\<close>

lemma request_returns_body:
  "fetch P (m_url (merge_config (config this) rc))
       (request_init P (merge_config (config this) rc) q variables) = Resolved response
   \<Longrightarrow> ok response \<Longrightarrow> json response = Resolved body
   \<Longrightarrow> result (request P this q variables rc) = Resolved body"
  by (simp add: result_request)

lemma query_rejects_errors:
  "result (request P this q variables rc) = Resolved body \<Longrightarrow> errors body = Some es
   \<Longrightarrow> result (query P this q variables rc) =
         Rejected (ErrorInstance ''Error'' (join '', '' (map message es)))"
  by (simp add: result_query)

lemma query_returns_data:
  "result (request P this q variables rc) = Resolved body \<Longrightarrow> errors body = None
   \<Longrightarrow> result (query P this q variables rc) = Resolved (data body)"
  by (simp add: result_query)

lemma query_user_not_found:
  "result (query
      (sample_platform (Resolved \<lparr>ok = True, status = 200,
         json = Resolved \<lparr>data = JNull,
           errors = Some [\<lparr>message = ''User not found'', locations = None, path = None,
             extensions = None\<rparr>,
             \<lparr>message = ''Not allowed'', locations = None, path = None,
             extensions = None\<rparr>]\<rparr>\<rparr>))
      (createClient sample_options) ''query { hello }'' JUndefined None) =
     Rejected (ErrorInstance ''Error'' ''User not found, Not allowed'')"
  by (simp add: result_query result_request sample_platform_def)

text \<open>
  Claim C3 says that \<open>query\<close> and \<open>mutation\<close> fail if and only if the
  \<^verbatim>\<open>errors\<close> list of the body is non-empty, and return the data payload otherwise.
  The test \<^verbatim>\<open>if (response.errors)\<close> holds for every array, the empty one too. On the
  body \<^verbatim>\<open>{data: {user: ...}, errors: []}\<close>, which reports no error, \<open>request\<close>
  returns the body and \<open>query\<close> rejects with an \<^verbatim>\<open>Error\<close> whose message is the
  empty string, where the claim has it return the data.
\<close>

theorem query_rejects_empty_errors_list:
  "result (request
      (sample_platform (Resolved \<lparr>ok = True, status = 200,
         json = Resolved (sample_body\<lparr>errors := Some []\<rparr>)\<rparr>))
      (createClient sample_options) ''query { hello }'' JUndefined None) =
     Resolved (sample_body\<lparr>errors := Some []\<rparr>)
   \<and> result (query
      (sample_platform (Resolved \<lparr>ok = True, status = 200,
         json = Resolved (sample_body\<lparr>errors := Some []\<rparr>)\<rparr>))
      (createClient sample_options) ''query { hello }'' JUndefined None) =
     Rejected (ErrorInstance ''Error'' [])"
  by (simp add: result_query result_request sample_platform_def)

subsection \<open>A status that is not a success\<close>

text \<open>
  Claim C4. When fetch resolves with a response whose status is not a success status
  (its \<^verbatim>\<open>ok\<close> is false), \<open>request\<close> fails with an \<^verbatim>\<open>Error\<close> whose message
  ends with the decimal status code; \<^verbatim>\<open>response.json()\<close> is not called, no
  response value is produced, and \<open>query\<close> and \<open>mutation\<close> fail with the same error.
\<close>

theorem request_http_error:
  assumes "fetch P (m_url (merge_config (config this) rc))
             (request_init P (merge_config (config this) rc) q variables) = Resolved response"
    and "\<not> ok response"
  shows "result (request P this q variables rc) =
           Rejected (ErrorInstance ''Error''
             (''GraphQL request failed: HTTP error! status: '' @ decimal (status response)))
         \<and> ResponseJson \<notin> set (trace (request P this q variables rc))
         \<and> (\<forall>body. result (request P this q variables rc) \<noteq> Resolved body)
         \<and> result (query P this q variables rc) =
           Rejected (ErrorInstance ''Error''
             (''GraphQL request failed: HTTP error! status: '' @ decimal (status response)))
         \<and> result (mutation P this q variables rc) =
           Rejected (ErrorInstance ''Error''
             (''GraphQL request failed: HTTP error! status: '' @ decimal (status response)))"
proof -
  have r: "result (request P this q variables rc) =
           Rejected (ErrorInstance ''Error''
             (''GraphQL request failed: HTTP error! status: '' @ decimal (status response)))"
    using assms by (simp add: result_request)
  have j: "ResponseJson \<notin> set (trace (request P this q variables rc))"
    using assms by (rule json_not_called)
  have qr: "result (query P this q variables rc) =
           Rejected (ErrorInstance ''Error''
             (''GraphQL request failed: HTTP error! status: '' @ decimal (status response)))"
    by (simp add: result_query r)
  from r j qr show ?thesis by (simp add: mutation_def)
qed

theorem request_http_error_witness:
  "result (request
      (sample_platform (Resolved \<lparr>ok = False, status = 404, json = Resolved sample_body\<rparr>))
      (createClient sample_options) ''query { hello }'' JUndefined None) =
     Rejected (ErrorInstance ''Error'' ''GraphQL request failed: HTTP error! status: 404'')
   \<and> ResponseJson \<notin> set (trace (request
      (sample_platform (Resolved \<lparr>ok = False, status = 404, json = Resolved sample_body\<rparr>))
      (createClient sample_options) ''query { hello }'' JUndefined None))"
  using request_http_error [of
      "sample_platform (Resolved \<lparr>ok = False, status = 404, json = Resolved sample_body\<rparr>)"
      "createClient sample_options" None "''query { hello }''" JUndefined
      "\<lparr>ok = False, status = 404, json = Resolved sample_body\<rparr>"]
  by (simp add: sample_platform_def)

subsection \<open>The timeout\<close>




subsection \<open>Failures of the transport\<close>

text \<open>
  Claim C6 says that every failure of fetch, of the status check or of the parsing of the
  body is raised again as one kind of failure, an \<^verbatim>\<open>Error\<close> whose message is the
  prefix for request failures followed by the original message, whatever kind of value
  the layer below threw. The catch block wraps a value only when it is an instance of
  \<^verbatim>\<open>Error\<close>, and throws every other value again as it is: when fetch rejects with
  the string \<^verbatim>\<open>'offline'\<close>, so does \<open>request\<close>, with no prefix and no
  \<^verbatim>\<open>Error\<close>.
\<close>

theorem request_rethrows_non_error:
  "result (request (sample_platform (Rejected (NonError (JString ''offline''))))
      (createClient sample_options) ''query { hello }'' JUndefined None) =
     Rejected (NonError (JString ''offline''))"
  by (simp add: result_request sample_platform_def catch_block_def)

text \<open>
  Claim C6, amended. A failure of fetch or of \<^verbatim>\<open>response.json()\<close> that is an
  instance of \<^verbatim>\<open>Error\<close>, of whatever class, is raised again as a plain
  \<^verbatim>\<open>Error\<close> whose message is \<^verbatim>\<open>GraphQL request failed: \<close> followed by the
  original message, and so is the error of a status that is not a success; the error with
  which fetch rejects when its signal is aborted is wrapped in the same way and differs
  from the others by its message only. A thrown value that is not an instance of
  \<^verbatim>\<open>Error\<close> is raised again unchanged.
\<close>

theorem request_wraps_error_instances:
  "(fetch P (m_url (merge_config (config this) rc))
       (request_init P (merge_config (config this) rc) q variables) =
       Rejected (ErrorInstance n m) \<longrightarrow>
     result (request P this q variables rc) =
       Rejected (ErrorInstance ''Error'' (''GraphQL request failed: '' @ m)))
   \<and> (fetch P (m_url (merge_config (config this) rc))
       (request_init P (merge_config (config this) rc) q variables) =
       Rejected (NonError v) \<longrightarrow>
     result (request P this q variables rc) = Rejected (NonError v))
   \<and> (fetch P (m_url (merge_config (config this) rc))
       (request_init P (merge_config (config this) rc) q variables) =
       Resolved response \<and> \<not> ok response \<longrightarrow>
     result (request P this q variables rc) =
       Rejected (ErrorInstance ''Error''
         (''GraphQL request failed: '' @ ''HTTP error! status: '' @
          decimal (status response))))
   \<and> (fetch P (m_url (merge_config (config this) rc))
       (request_init P (merge_config (config this) rc) q variables) =
       Resolved response \<and> ok response \<and> json response = Rejected (ErrorInstance n m) \<longrightarrow>
     result (request P this q variables rc) =
       Rejected (ErrorInstance ''Error'' (''GraphQL request failed: '' @ m)))
   \<and> (fetch P (m_url (merge_config (config this) rc))
       (request_init P (merge_config (config this) rc) q variables) =
       Resolved response \<and> ok response \<and> json response = Rejected (NonError v) \<longrightarrow>
     result (request P this q variables rc) = Rejected (NonError v))"
  by (simp add: result_request catch_block_def)

theorem request_wraps_error_instances_witness:
  "result (request
      (sample_platform (Rejected (ErrorInstance ''TypeError'' ''Network error'')))
      (createClient sample_options) ''query { hello }'' JUndefined None) =
     Rejected (ErrorInstance ''Error'' ''GraphQL request failed: Network error'')
   \<and> result (request
      (sample_platform (Rejected (ErrorInstance ''AbortError'' ''The operation was aborted.'')))
      (createClient sample_options) ''query { hello }'' JUndefined None) =
     Rejected (ErrorInstance ''Error'' ''GraphQL request failed: The operation was aborted.'')
   \<and> result (request
      (sample_platform (Rejected (NonError (JNumber 1))))
      (createClient sample_options) ''query { hello }'' JUndefined None) =
     Rejected (NonError (JNumber 1))
   \<and> result (request
      (sample_platform (Resolved \<lparr>ok = False, status = 500, json = Pending\<rparr>))
      (createClient sample_options) ''query { hello }'' JUndefined None) =
     Rejected (ErrorInstance ''Error'' ''GraphQL request failed: HTTP error! status: 500'')
   \<and> result (request
      (sample_platform (Resolved \<lparr>ok = True, status = 200,
         json = Rejected (ErrorInstance ''SyntaxError'' ''Unexpected end of JSON input'')\<rparr>))
      (createClient sample_options) ''query { hello }'' JUndefined None) =
     Rejected (ErrorInstance ''Error''
       ''GraphQL request failed: Unexpected end of JSON input'')
   \<and> result (request
      (sample_platform (Resolved \<lparr>ok = True, status = 200,
         json = Rejected (NonError JNull)\<rparr>))
      (createClient sample_options) ''query { hello }'' JUndefined None) =
     Rejected (NonError JNull)"
  using
    request_wraps_error_instances [of
      "sample_platform (Rejected (ErrorInstance ''TypeError'' ''Network error''))"
      "createClient sample_options" None "''query { hello }''" JUndefined
      "''TypeError''" "''Network error''"]
    request_wraps_error_instances [of
      "sample_platform (Rejected (ErrorInstance ''AbortError'' ''The operation was aborted.''))"
      "createClient sample_options" None "''query { hello }''" JUndefined
      "''AbortError''" "''The operation was aborted.''"]
    request_wraps_error_instances [of
      "sample_platform (Rejected (NonError (JNumber 1)))"
      "createClient sample_options" None "''query { hello }''" JUndefined
      _ _ "JNumber 1"]
    request_wraps_error_instances [of
      "sample_platform (Resolved \<lparr>ok = False, status = 500, json = Pending\<rparr>)"
      "createClient sample_options" None "''query { hello }''" JUndefined
      _ _ _ "\<lparr>ok = False, status = 500, json = Pending\<rparr>"]
    request_wraps_error_instances [of
      "sample_platform (Resolved \<lparr>ok = True, status = 200,
         json = Rejected (ErrorInstance ''SyntaxError'' ''Unexpected end of JSON input'')\<rparr>)"
      "createClient sample_options" None "''query { hello }''" JUndefined
      "''SyntaxError''" "''Unexpected end of JSON input''" _
      "\<lparr>ok = True, status = 200,
         json = Rejected (ErrorInstance ''SyntaxError'' ''Unexpected end of JSON input'')\<rparr>"]
    request_wraps_error_instances [of
      "sample_platform (Resolved \<lparr>ok = True, status = 200,
         json = Rejected (NonError JNull)\<rparr>)"
      "createClient sample_options" None "''query { hello }''" JUndefined
      _ _ JNull
      "\<lparr>ok = True, status = 200, json = Rejected (NonError JNull)\<rparr>"]
  by (simp add: sample_platform_def)

subsection \<open>What a per-call override reaches\<close>

text \<open>
  Claim C7. The object passed as the per-call override may give a value to every field
  of the client's configuration that a call reads: the endpoint, the headers, the
  credentials, the mode, the cache mode, the timeout, and the default headers too. The
  value it gives is the one in effect for that call: fetch is called with that endpoint,
  those headers laid over the default headers, and those transport options; the timer
  is set to that timeout (a timeout of 0, here as for the client, sets none). \<open>query\<close>
  and \<open>mutation\<close> hand the override to \<open>request\<close> and do to the outside what it does.
\<close>

theorem override_fields_in_effect:
  "(p_url ov = Value u \<longrightarrow>
      map fst (fetch_calls (trace (request P this q variables (Some ov)))) = [Some u])
   \<and> (p_headers ov = Value h \<longrightarrow>
      map (\<lambda>(u, i). init_headers i)
        (fetch_calls (trace (request P this q variables (Some ov)))) =
        [(case p_defaultHeaders ov of
            Absent \<Rightarrow> spread (defaultHeaders (config this))
          | Undefined \<Rightarrow> Map.empty
          | Value d \<Rightarrow> d) ++ h])
   \<and> (p_credentials ov = Value c \<longrightarrow>
      map (\<lambda>(u, i). init_credentials i)
        (fetch_calls (trace (request P this q variables (Some ov)))) = [Some c])
   \<and> (p_mode ov = Value md \<longrightarrow>
      map (\<lambda>(u, i). init_mode i)
        (fetch_calls (trace (request P this q variables (Some ov)))) = [Some md])
   \<and> (p_cache ov = Value ca \<longrightarrow>
      map (\<lambda>(u, i). init_cache i)
        (fetch_calls (trace (request P this q variables (Some ov)))) = [Some ca])
   \<and> (p_timeout ov = Value t \<longrightarrow>
      m_timeout (merge_config (config this) (Some ov)) = Some t
      \<and> map (\<lambda>(u, i). init_signal i)
        (fetch_calls (trace (request P this q variables (Some ov)))) =
        [if t \<noteq> 0 then Some t else None]
      \<and> (t \<noteq> 0 \<longrightarrow> hd (trace (request P this q variables (Some ov))) = SetTimeout t))
   \<and> (p_defaultHeaders ov = Value d \<longrightarrow>
      map (\<lambda>(u, i). init_headers i)
        (fetch_calls (trace (request P this q variables (Some ov)))) =
        [d ++ (case p_headers ov of
                 Absent \<Rightarrow> spread (headers (config this))
               | Undefined \<Rightarrow> Map.empty
               | Value h \<Rightarrow> h)])
   \<and> trace (query P this q variables (Some ov)) = trace (request P this q variables (Some ov))
   \<and> trace (mutation P this q variables (Some ov)) =
      trace (request P this q variables (Some ov))"
proof -
  note calls = fetch_calls_request_Some [of P this q variables ov]
  have sent: "map (\<lambda>(u, i). init_headers i)
      (fetch_calls (trace (request P this q variables (Some ov)))) =
      sent_headers P this q variables (Some ov)"
    by (simp add: sent_headers_def)
  have u: "p_url ov = Value u \<longrightarrow>
      map fst (fetch_calls (trace (request P this q variables (Some ov)))) = [Some u]"
    by (simp add: calls spread_optional_def)
  have h: "p_headers ov = Value h \<longrightarrow>
      map (\<lambda>(u, i). init_headers i)
        (fetch_calls (trace (request P this q variables (Some ov)))) =
        [(case p_defaultHeaders ov of
            Absent \<Rightarrow> spread (defaultHeaders (config this))
          | Undefined \<Rightarrow> Map.empty
          | Value d \<Rightarrow> d) ++ h]"
    by (simp add: sent sent_headers_Some)
  have opts: "(p_credentials ov = Value c \<longrightarrow>
      map (\<lambda>(u, i). init_credentials i)
        (fetch_calls (trace (request P this q variables (Some ov)))) = [Some c])
   \<and> (p_mode ov = Value md \<longrightarrow>
      map (\<lambda>(u, i). init_mode i)
        (fetch_calls (trace (request P this q variables (Some ov)))) = [Some md])
   \<and> (p_cache ov = Value ca \<longrightarrow>
      map (\<lambda>(u, i). init_cache i)
        (fetch_calls (trace (request P this q variables (Some ov)))) = [Some ca])"
    by (simp add: calls spread_optional_def)
  have t: "p_timeout ov = Value t \<longrightarrow>
      m_timeout (merge_config (config this) (Some ov)) = Some t
      \<and> map (\<lambda>(u, i). init_signal i)
        (fetch_calls (trace (request P this q variables (Some ov)))) =
        [if t \<noteq> 0 then Some t else None]
      \<and> (t \<noteq> 0 \<longrightarrow> hd (trace (request P this q variables (Some ov))) = SetTimeout t)"
  proof
    assume v: "p_timeout ov = Value t"
    have m: "m_timeout (merge_config (config this) (Some ov)) = Some t"
      by (simp add: merge_config_def spread_optional_def v)
    have s: "map (\<lambda>(u, i). init_signal i)
        (fetch_calls (trace (request P this q variables (Some ov)))) =
        [if t \<noteq> 0 then Some t else None]"
      by (simp add: calls spread_optional_def v)
    have hd: "t \<noteq> 0 \<longrightarrow> hd (trace (request P this q variables (Some ov))) = SetTimeout t"
      using request_sets_timer [OF m, of P q variables] by blast
    from m s hd show "m_timeout (merge_config (config this) (Some ov)) = Some t
      \<and> map (\<lambda>(u, i). init_signal i)
        (fetch_calls (trace (request P this q variables (Some ov)))) =
        [if t \<noteq> 0 then Some t else None]
      \<and> (t \<noteq> 0 \<longrightarrow> hd (trace (request P this q variables (Some ov))) = SetTimeout t)"
      by blast
  qed
  have d: "p_defaultHeaders ov = Value d \<longrightarrow>
      map (\<lambda>(u, i). init_headers i)
        (fetch_calls (trace (request P this q variables (Some ov)))) =
        [d ++ (case p_headers ov of
                 Absent \<Rightarrow> spread (headers (config this))
               | Undefined \<Rightarrow> Map.empty
               | Value h \<Rightarrow> h)]"
    by (simp add: sent sent_headers_Some)
  have tq: "trace (query P this q variables (Some ov)) =
      trace (request P this q variables (Some ov))"
    "trace (mutation P this q variables (Some ov)) =
      trace (request P this q variables (Some ov))"
    by (simp_all add: trace_query mutation_def)
  from u h opts t d tq show ?thesis by blast
qed

theorem override_fields_in_effect_witness:
  "map (\<lambda>(u, i). (u, init_headers i ''X-Environment'', init_headers i ''Custom-Header'',
          init_headers i ''Content-Type'', init_credentials i, init_mode i, init_cache i,
          init_signal i))
     (fetch_calls (trace (query (sample_platform Pending) (createClient sample_options)
        ''query { hello }'' JUndefined
        (Some (staging_override\<lparr>p_headers := Value [''Custom-Header'' \<mapsto> ''value''],
           p_credentials := Value ''include'', p_mode := Value ''cors'',
           p_cache := Value ''no-cache''\<rparr>))))) =
   [(Some ''https://staging.example.com/graphql'', Some ''staging'', Some ''value'', None,
     Some ''include'', Some ''cors'', Some ''no-cache'', Some 50)]
   \<and> hd (trace (query (sample_platform Pending) (createClient sample_options)
        ''query { hello }'' JUndefined
        (Some (staging_override\<lparr>p_headers := Value [''Custom-Header'' \<mapsto> ''value''],
           p_credentials := Value ''include'', p_mode := Value ''cors'',
           p_cache := Value ''no-cache''\<rparr>)))) = SetTimeout 50"
proof -
  let ?P = "sample_platform Pending"
  let ?c = "createClient sample_options"
  let ?h = "[''Custom-Header'' \<mapsto> ''value'']"
  let ?d = "[''X-Environment'' \<mapsto> ''staging'']"
  let ?ov = "staging_override\<lparr>p_headers := Value ?h,
           p_credentials := Value ''include'', p_mode := Value ''cors'',
           p_cache := Value ''no-cache''\<rparr>"
  let ?calls = "fetch_calls (trace (request ?P ?c ''query { hello }'' JUndefined (Some ?ov)))"
  have ov: "p_url ?ov = Value ''https://staging.example.com/graphql''"
    "p_headers ?ov = Value ?h"
    "p_credentials ?ov = Value ''include''"
    "p_mode ?ov = Value ''cors''"
    "p_cache ?ov = Value ''no-cache''"
    "p_timeout ?ov = Value 50"
    "p_defaultHeaders ?ov = Value ?d"
    by (simp_all add: staging_override_def)
  note a = override_fields_in_effect [of ?ov "''https://staging.example.com/graphql''"
      ?P ?c "''query { hello }''" JUndefined ?h "''include''" "''cors''" "''no-cache''"
      50 ?d]
  from a have q: "trace (query ?P ?c ''query { hello }'' JUndefined (Some ?ov)) =
      trace (request ?P ?c ''query { hello }'' JUndefined (Some ?ov))"
    by blast
  from a ov have 1: "map fst ?calls = [Some ''https://staging.example.com/graphql'']"
    by simp
  from a ov have 2: "map (\<lambda>(u, i). init_headers i) ?calls = [?d ++ ?h]"
    by simp
  from a ov have 3: "map (\<lambda>(u, i). init_credentials i) ?calls = [Some ''include'']"
    "map (\<lambda>(u, i). init_mode i) ?calls = [Some ''cors'']"
    "map (\<lambda>(u, i). init_cache i) ?calls = [Some ''no-cache'']"
    by simp_all
  from a ov have 4: "map (\<lambda>(u, i). init_signal i) ?calls = [Some 50]"
    "hd (trace (request ?P ?c ''query { hello }'' JUndefined (Some ?ov))) = SetTimeout 50"
    by simp_all
  from 1 2 3 4 have "map (\<lambda>(u, i). (u, init_headers i ''X-Environment'',
          init_headers i ''Custom-Header'', init_headers i ''Content-Type'',
          init_credentials i, init_mode i, init_cache i, init_signal i)) ?calls =
      [(Some ''https://staging.example.com/graphql'', Some ''staging'', Some ''value'', None,
        Some ''include'', Some ''cors'', Some ''no-cache'', Some 50)]"
    by (auto simp add: fetch_calls_request map_add_def)
  with 4 q show ?thesis by simp
qed

subsection \<open>setHeader and setHeaders\<close>

text \<open>
  Claim C8 says that \<open>setHeader\<close> applied twice with one key keeps the latest value only,
  that \<open>setHeaders\<close> leaves the keys it does not mention unchanged, and that the updated
  mapping is in effect for all subsequent calls on the instance. The first two hold. The
  stored mapping is only the lowest layer of what a call sends, and a call can replace
  it: on the client of the README, which gives \<^verbatim>\<open>Authorization\<close> as
  \<^verbatim>\<open>headers\<close>, a call made after \<^verbatim>\<open>setHeader('Authorization', ...)\<close> still
  sends the old value; and a call whose override carries \<^verbatim>\<open>defaultHeaders\<close> of its
  own does not send a header that \<open>setHeader\<close> has just stored.
\<close>

theorem setHeader_not_in_effect:
  "map (\<lambda>hs. hs ''Authorization'')
     (sent_headers (sample_platform Pending)
        (setHeader (createClient sample_options) ''Authorization'' ''Bearer new-token'')
        ''query { hello }'' JUndefined None) = [Some ''Bearer your-token'']
   \<and> map (\<lambda>hs. hs ''X-Api-Key'')
     (sent_headers (sample_platform Pending)
        (setHeader (createClient sample_options) ''X-Api-Key'' ''secret'')
        ''query { hello }'' JUndefined (Some staging_override)) = [None]"
  by (simp add: sent_headers_None sent_headers_Some setHeader_def createClient_def
      constructor_def sample_options_def staging_override_def map_add_def)

text \<open>
  Claim C8, amended. \<open>setHeader\<close> applied twice with the same key leaves the stored
  default header mapping as one application with the later value would, so the key holds
  the latest value only. \<open>setHeaders\<close> with a partial mapping gives its keys the values
  of that mapping and leaves every key it does not mention unchanged. The updated mapping
  is the base of the headers of every subsequent call on the instance that is made
  without an override, or with an override that has no \<^verbatim>\<open>defaultHeaders\<close>: such a
  call sends the updated mapping overlaid with the headers in effect for it (those of the
  override, or else the client's \<^verbatim>\<open>headers\<close>), so it sends a key just set with its
  new value unless those headers give the key a value. A call whose override carries
  \<^verbatim>\<open>defaultHeaders\<close> sends these in place of the stored mapping.
\<close>

theorem setHeader_setHeaders_merge:
  "setHeader (setHeader this key v1) key v2 = setHeader this key v2
   \<and> spread (defaultHeaders (config (setHeader (setHeader this key v1) key v2))) key =
       Some v2
   \<and> (k \<notin> dom hs \<longrightarrow>
        spread (defaultHeaders (config (setHeaders this hs))) k =
        spread (defaultHeaders (config this)) k)
   \<and> (k \<in> dom hs \<longrightarrow>
        spread (defaultHeaders (config (setHeaders this hs))) k = hs k)
   \<and> sent_headers P (setHeader this key v) q variables None =
        [(spread (defaultHeaders (config this)))(key \<mapsto> v) ++ spread (headers (config this))]
   \<and> sent_headers P (setHeaders this hs) q variables None =
        [(spread (defaultHeaders (config this)) ++ hs) ++ spread (headers (config this))]
   \<and> (key \<notin> dom (spread (headers (config this))) \<longrightarrow>
        map (\<lambda>m. m key) (sent_headers P (setHeader this key v) q variables None) = [Some v])
   \<and> (k \<in> dom hs \<and> k \<notin> dom (spread (headers (config this))) \<longrightarrow>
        map (\<lambda>m. m k) (sent_headers P (setHeaders this hs) q variables None) = [hs k])
   \<and> (p_defaultHeaders ov = Absent \<longrightarrow>
        sent_headers P (setHeader this key v) q variables (Some ov) =
          [(spread (defaultHeaders (config this)))(key \<mapsto> v) ++
           (case p_headers ov of
              Absent \<Rightarrow> spread (headers (config this))
            | Undefined \<Rightarrow> Map.empty
            | Value h \<Rightarrow> h)]
        \<and> sent_headers P (setHeaders this hs) q variables (Some ov) =
          [(spread (defaultHeaders (config this)) ++ hs) ++
           (case p_headers ov of
              Absent \<Rightarrow> spread (headers (config this))
            | Undefined \<Rightarrow> Map.empty
            | Value h \<Rightarrow> h)])
   \<and> (p_defaultHeaders ov = Value d \<longrightarrow>
        sent_headers P (setHeader this key v) q variables (Some ov) =
          sent_headers P this q variables (Some ov)
        \<and> sent_headers P (setHeaders this hs) q variables (Some ov) =
          sent_headers P this q variables (Some ov))"
proof -
  have a: "setHeader (setHeader this key v1) key v2 = setHeader this key v2"
    by (simp add: setHeader_def)
  have b: "spread (defaultHeaders (config (setHeader (setHeader this key v1) key v2))) key =
      Some v2"
    by (simp add: setHeader_def)
  have c: "k \<notin> dom hs \<longrightarrow>
        spread (defaultHeaders (config (setHeaders this hs))) k =
        spread (defaultHeaders (config this)) k"
    by (simp add: setHeaders_def map_add_dom_app_simps)
  have c': "k \<in> dom hs \<longrightarrow>
        spread (defaultHeaders (config (setHeaders this hs))) k = hs k"
    by (simp add: setHeaders_def map_add_dom_app_simps)
  have d: "sent_headers P (setHeader this key v) q variables None =
        [(spread (defaultHeaders (config this)))(key \<mapsto> v) ++ spread (headers (config this))]"
    by (simp add: sent_headers_None defaultHeaders_setHeader headers_setHeader)
  have e: "sent_headers P (setHeaders this hs) q variables None =
        [(spread (defaultHeaders (config this)) ++ hs) ++ spread (headers (config this))]"
    by (simp add: sent_headers_None defaultHeaders_setHeaders headers_setHeaders)
  have f: "key \<notin> dom (spread (headers (config this))) \<longrightarrow>
        map (\<lambda>m. m key) (sent_headers P (setHeader this key v) q variables None) = [Some v]"
    by (simp add: d map_add_dom_app_simps)
  have g: "k \<in> dom hs \<and> k \<notin> dom (spread (headers (config this))) \<longrightarrow>
        map (\<lambda>m. m k) (sent_headers P (setHeaders this hs) q variables None) = [hs k]"
    by (simp add: e map_add_dom_app_simps)
  have h: "p_defaultHeaders ov = Absent \<longrightarrow>
        sent_headers P (setHeader this key v) q variables (Some ov) =
          [(spread (defaultHeaders (config this)))(key \<mapsto> v) ++
           (case p_headers ov of
              Absent \<Rightarrow> spread (headers (config this))
            | Undefined \<Rightarrow> Map.empty
            | Value h \<Rightarrow> h)]
        \<and> sent_headers P (setHeaders this hs) q variables (Some ov) =
          [(spread (defaultHeaders (config this)) ++ hs) ++
           (case p_headers ov of
              Absent \<Rightarrow> spread (headers (config this))
            | Undefined \<Rightarrow> Map.empty
            | Value h \<Rightarrow> h)]"
    by (simp add: sent_headers_Some defaultHeaders_setHeader headers_setHeader
        defaultHeaders_setHeaders headers_setHeaders split: optional.splits)
  have i: "p_defaultHeaders ov = Value d \<longrightarrow>
        sent_headers P (setHeader this key v) q variables (Some ov) =
          sent_headers P this q variables (Some ov)
        \<and> sent_headers P (setHeaders this hs) q variables (Some ov) =
          sent_headers P this q variables (Some ov)"
    by (simp add: sent_headers_Some headers_setHeader headers_setHeaders
        split: optional.splits)
  from a b c c' d e f g h i show ?thesis by blast
qed

theorem setHeader_setHeaders_merge_witness:
  "spread (defaultHeaders (config
      (setHeader (setHeader (createClient sample_options) ''X-Api-Key'' ''secret'')
         ''X-Api-Key'' ''new-secret''))) ''X-Api-Key'' = Some ''new-secret''
   \<and> spread (defaultHeaders (config
      (setHeaders (createClient sample_options)
         [''X-Custom-Header'' \<mapsto> ''custom-value'']))) ''Content-Type'' =
       Some ''application/json''
   \<and> map (\<lambda>m. m ''X-Api-Key'')
       (sent_headers (sample_platform Pending)
          (setHeader (createClient sample_options) ''X-Api-Key'' ''secret'')
          ''query { hello }'' JUndefined None) = [Some ''secret'']
   \<and> map (\<lambda>m. m ''X-Custom-Header'')
       (sent_headers (sample_platform Pending)
          (setHeaders (createClient sample_options)
             [''X-Custom-Header'' \<mapsto> ''custom-value''])
          ''query { hello }'' JUndefined None) = [Some ''custom-value'']
   \<and> map (\<lambda>m. (m ''X-Api-Key'', m ''Custom-Header''))
       (sent_headers (sample_platform Pending)
          (setHeader (createClient sample_options) ''X-Api-Key'' ''secret'')
          ''query { hello }'' JUndefined (Some sample_override)) =
       [(Some ''secret'', Some ''value'')]
   \<and> sent_headers (sample_platform Pending)
          (setHeader (createClient sample_options) ''X-Api-Key'' ''secret'')
          ''query { hello }'' JUndefined (Some staging_override) =
       sent_headers (sample_platform Pending) (createClient sample_options)
          ''query { hello }'' JUndefined (Some staging_override)"
proof -
  let ?P = "sample_platform Pending"
  let ?c = "createClient sample_options"
  let ?hs = "[''X-Custom-Header'' \<mapsto> ''custom-value'']"
  have mem: "''Content-Type'' \<notin> dom ?hs" "''X-Custom-Header'' \<in> dom ?hs"
    by simp_all
  have cl: "spread (defaultHeaders (config ?c)) = [''Content-Type'' \<mapsto> ''application/json'']"
    "spread (headers (config ?c)) = [''Authorization'' \<mapsto> ''Bearer your-token'']"
    by (simp_all add: createClient_def constructor_def sample_options_def)
  have free: "''X-Api-Key'' \<notin> dom (spread (headers (config ?c)))"
    "''X-Custom-Header'' \<notin> dom (spread (headers (config ?c)))"
    by (simp_all add: cl)
  have ov: "p_defaultHeaders sample_override = Absent"
    "p_headers sample_override = Value [''Custom-Header'' \<mapsto> ''value'']"
    "p_defaultHeaders staging_override = Value [''X-Environment'' \<mapsto> ''staging'']"
    by (simp_all add: sample_override_def staging_override_def)
  note a = setHeader_setHeaders_merge [of ?c "''X-Api-Key''" "''secret''" "''new-secret''"
      "''Content-Type''" ?hs ?P "''secret''" "''query { hello }''" JUndefined sample_override]
  note b = setHeader_setHeaders_merge [of ?c "''X-Api-Key''" "''secret''" "''new-secret''"
      "''X-Custom-Header''" ?hs ?P "''secret''" "''query { hello }''" JUndefined
      staging_override "[''X-Environment'' \<mapsto> ''staging'']"]
  from a have 1: "spread (defaultHeaders (config
      (setHeader (setHeader ?c ''X-Api-Key'' ''secret'') ''X-Api-Key'' ''new-secret'')))
      ''X-Api-Key'' = Some ''new-secret''"
    by blast
  from a have "''Content-Type'' \<notin> dom ?hs \<longrightarrow>
      spread (defaultHeaders (config (setHeaders ?c ?hs))) ''Content-Type'' =
      spread (defaultHeaders (config ?c)) ''Content-Type''"
    by blast
  with mem(1) cl(1) have 2:
    "spread (defaultHeaders (config (setHeaders ?c ?hs))) ''Content-Type'' =
      Some ''application/json''"
    by simp
  from a free have 3: "map (\<lambda>m. m ''X-Api-Key'')
       (sent_headers ?P (setHeader ?c ''X-Api-Key'' ''secret'')
          ''query { hello }'' JUndefined None) = [Some ''secret'']"
    by blast
  from b have "''X-Custom-Header'' \<in> dom ?hs \<and>
      ''X-Custom-Header'' \<notin> dom (spread (headers (config ?c))) \<longrightarrow>
      map (\<lambda>m. m ''X-Custom-Header'')
       (sent_headers ?P (setHeaders ?c ?hs) ''query { hello }'' JUndefined None) =
       [?hs ''X-Custom-Header'']"
    by blast
  with mem(2) free(2) have 4: "map (\<lambda>m. m ''X-Custom-Header'')
       (sent_headers ?P (setHeaders ?c ?hs) ''query { hello }'' JUndefined None) =
       [Some ''custom-value'']"
    by simp
  from a ov have "sent_headers ?P (setHeader ?c ''X-Api-Key'' ''secret'')
          ''query { hello }'' JUndefined (Some sample_override) =
      [(spread (defaultHeaders (config ?c)))(''X-Api-Key'' \<mapsto> ''secret'') ++
       [''Custom-Header'' \<mapsto> ''value'']]"
    by simp
  then have 5: "map (\<lambda>m. (m ''X-Api-Key'', m ''Custom-Header''))
       (sent_headers ?P (setHeader ?c ''X-Api-Key'' ''secret'')
          ''query { hello }'' JUndefined (Some sample_override)) =
       [(Some ''secret'', Some ''value'')]"
    by (simp add: cl map_add_def)
  from b ov have 6: "sent_headers ?P (setHeader ?c ''X-Api-Key'' ''secret'')
          ''query { hello }'' JUndefined (Some staging_override) =
       sent_headers ?P ?c ''query { hello }'' JUndefined (Some staging_override)"
    by blast
  from 1 2 3 4 5 6 show ?thesis by blast
qed

subsection \<open>The stored configuration is not touched by a call\<close>

text \<open>
  Claim C9. The instance after a call to \<open>request\<close>, \<open>query\<close> or \<open>mutation\<close> is the
  instance before it, whatever override the call was given: the override is merged into
  a copy, and the stored endpoint, default headers, transport options and timeout stay
  as they were.
\<close>

theorem request_keeps_config:
  "self (request P this q variables rc) = this
   \<and> self (query P this q variables rc) = this
   \<and> self (mutation P this q variables rc) = this
   \<and> config (self (request P this q variables rc)) = config this"
  by (simp add: self_request self_query mutation_def)

theorem request_keeps_config_witness:
  "self (query
      (sample_platform (Resolved \<lparr>ok = True, status = 200, json = Resolved sample_body\<rparr>))
      (createClient sample_options) ''query { hello }'' JUndefined (Some sample_override)) =
     createClient sample_options
   \<and> headers (config (self (request
      (sample_platform (Resolved \<lparr>ok = True, status = 200, json = Resolved sample_body\<rparr>))
      (createClient sample_options) ''query { hello }'' JUndefined (Some sample_override)))) =
     headers sample_options"
  using request_keeps_config [of
      "sample_platform (Resolved \<lparr>ok = True, status = 200, json = Resolved sample_body\<rparr>)"
      "createClient sample_options" "''query { hello }''" JUndefined "Some sample_override"]
  by (simp add: createClient_def constructor_def)

subsection \<open>The content type seeded by the constructor\<close>

text \<open>
  Claim C10. After construction the stored default header mapping has the key
  \<^verbatim>\<open>Content-Type\<close>: its value is \<^verbatim>\<open>application/json\<close> when the
  \<^verbatim>\<open>defaultHeaders\<close> of the options do not have that key, and the caller's value
  when they do. \<open>setHeader\<close> and \<open>setHeaders\<close> only add keys to the mapping or give a
  key a new value, so the key stays.
\<close>

theorem constructor_seeds_content_type:
  "spread (defaultHeaders (config (constructor options))) ''Content-Type'' =
     (case spread (defaultHeaders options) ''Content-Type'' of
        None \<Rightarrow> Some ''application/json''
      | Some v \<Rightarrow> Some v)
   \<and> ''Content-Type'' \<in> dom (spread (defaultHeaders (config (constructor options))))
   \<and> createClient options = constructor options
   \<and> dom (spread (defaultHeaders (config (setHeader this key v)))) =
       insert key (dom (spread (defaultHeaders (config this))))
   \<and> dom (spread (defaultHeaders (config (setHeaders this hs)))) =
       dom (spread (defaultHeaders (config this))) \<union> dom hs"
  by (auto simp add: constructor_def createClient_def setHeader_def setHeaders_def
      map_add_def split: option.splits)

theorem constructor_seeds_content_type_witness:
  "spread (defaultHeaders (config (constructor sample_options))) ''Content-Type'' =
     Some ''application/json''
   \<and> spread (defaultHeaders (config (constructor
        (sample_options\<lparr>defaultHeaders := Some [''Content-Type'' \<mapsto> ''text/plain'']\<rparr>))))
      ''Content-Type'' = Some ''text/plain''"
  using constructor_seeds_content_type [of sample_options]
    constructor_seeds_content_type [of
      "sample_options\<lparr>defaultHeaders := Some [''Content-Type'' \<mapsto> ''text/plain'']\<rparr>"]
  by (simp add: sample_options_def)

end
